theory Spec2Isabelle
  imports Main
begin

section \<open>The QubitSDK facade of \<open>src/index.ts\<close>\<close>

text \<open>
  The facade is one class, \<open>QubitSDK\<close>, with two private fields and nine methods. Every
  method either mutates a field of \<open>this\<close> or forwards to \<open>NativeModules.QubitSDK\<close>,
  guarded by \<open>Platform.OS === 'ios'\<close>. The model makes the three things the methods touch
  explicit: the object store (so that \<open>return this\<close> is a reference), the platform tag, and
  the native module, whose calls are appended to a log in the order they are issued.
\<close>

subsection \<open>Values crossing the bridge\<close>

text \<open>
  JavaScript numbers are kept abstract as \<open>'n\<close> and every other value that crosses the
  bridge (event bodies, lookup data, property values of experience records, failure values) as
  \<open>'j\<close>: the facade never inspects them. An object is a finite map from property names to
  values. A rejection reason is \<open>None\<close> for \<open>undefined\<close> (what \<open>reject()\<close> and
  \<open>Promise.reject()\<close> pass) and \<open>Some v\<close> for a value \<open>v\<close>.
\<close>

type_synonym 'j obj = "string \<rightharpoonup> 'j"

type_synonym 'j reason = "'j option"

subsection \<open>Promises\<close>

text \<open>
  A promise is pending, fulfilled with a value or rejected with a reason. A promise handed to
  a caller is described by its state when the call returns and by its state once the native
  reply (if any) has been delivered; \<open>Pending\<close> in \<open>settled\<close> is a promise that never settles.
\<close>

datatype ('a, 'r) pstate = Pending | Fulfilled 'a | Rejected 'r

record ('a, 'r) promise =
  at_return :: "('a, 'r) pstate"
  settled :: "('a, 'r) pstate"

text \<open>The \<open>resolve\<close> and \<open>reject\<close> functions of a promise executor: the first call wins.\<close>

definition resolve :: "'a \<Rightarrow> ('a, 'r) pstate \<Rightarrow> ('a, 'r) pstate" where
  "resolve v p = (case p of Pending \<Rightarrow> Fulfilled v | _ \<Rightarrow> p)"

definition reject :: "'r \<Rightarrow> ('a, 'r) pstate \<Rightarrow> ('a, 'r) pstate" where
  "reject r p = (case p of Pending \<Rightarrow> Rejected r | _ \<Rightarrow> p)"

text \<open>\<open>Promise.reject()\<close>: a promise that is already rejected, with reason \<open>undefined\<close>.\<close>

definition Promise_reject :: "('a, 'j reason) promise" where
  "Promise_reject = \<lparr>at_return = Rejected None, settled = Rejected None\<rparr>"

subsection \<open>The native module\<close>

text \<open>The calls of \<open>NativeModules.QubitSDK\<close>, with their arguments in positional order.\<close>

datatype ('n, 'j) native_call =
    Init "string option" string
  | SendEvent string 'j
  | EnableTracker bool
  | GetTrackingId
  | GetDeviceId
  | GetLookupData
  | GetExperiences "'n list" bool 'n bool bool bool bool
  | ExperienceShown "'j obj"

text \<open>
  Modelled from the spec: the native module itself is not part of \<open>src/\<close>; section 6 of
  the specification gives its operations. Its asynchronous operations are a parameter of the
  model: for each one, the promise the native side returns. A failure of the native side is
  the rejection of the promise it returned.
\<close>

record ('n, 'j) NativeQubitSDK =
  reply_getTrackingId :: "(string, 'j reason) promise"
  reply_getDeviceId :: "(string, 'j reason) promise"
  reply_getLookupData :: "('j, 'j reason) promise"
  reply_getExperiences ::
    "'n list \<Rightarrow> bool \<Rightarrow> 'n \<Rightarrow> bool \<Rightarrow> bool \<Rightarrow> bool \<Rightarrow> bool \<Rightarrow> ('j obj list, 'j reason) promise"

subsection \<open>The facade object and the world around it\<close>

text \<open>
  The fields \<open>_trackingId\<close> (initially \<open>null\<close>, here \<open>None\<close>) and \<open>_logLevel\<close>
  (initially \<open>'WARN'\<close>).
\<close>

record QubitSDK =
  priv_trackingId :: "string option"
  priv_logLevel :: string

definition new_QubitSDK :: QubitSDK where
  "new_QubitSDK = \<lparr>priv_trackingId = None, priv_logLevel = ''WARN''\<rparr>"

text \<open>The six values of the parameter type of \<open>withLogLevel\<close>.\<close>

definition logLevels :: "string list" where
  "logLevels = [''SILENT'', ''ERROR'', ''WARN'', ''INFO'', ''DEBUG'', ''VERBOSE'']"

type_synonym ref = nat

text \<open>
  A supported platform is one whose native side is there, so \<open>NativeModules.QubitSDK\<close> is
  the module object on every platform other than iOS. On iOS it is the module object where
  the application registers one and \<open>undefined\<close> otherwise: \<open>ios_module_registered\<close> says
  which. \<open>TypeError_value\<close> is the error the runtime throws for a property read on
  \<open>undefined\<close>.
\<close>

record ('n, 'j) world =
  Platform_OS :: string
  heap :: "ref \<Rightarrow> QubitSDK"
  NativeModules_QubitSDK :: "('n, 'j) NativeQubitSDK"
  native_log :: "('n, 'j) native_call list"
  ios_module_registered :: bool
  TypeError_value :: 'j

text \<open>
  The value of the expression \<open>NativeModules.QubitSDK\<close>, \<open>None\<close> for \<open>undefined\<close>. The
  methods that reach the expression only past their iOS guard read the module directly.
\<close>

definition QubitSDK_module :: "('n, 'j) world \<Rightarrow> ('n, 'j) NativeQubitSDK option" where
  "QubitSDK_module w =
     (if Platform_OS w = ''ios''
      then (if ios_module_registered w then Some (NativeModules_QubitSDK w) else None)
      else Some (NativeModules_QubitSDK w))"

text \<open>Issuing a native call appends it to the log.\<close>

definition native :: "('n, 'j) native_call \<Rightarrow> ('n, 'j) world \<Rightarrow> ('n, 'j) world" where
  "native c w = w\<lparr>native_log := native_log w @ [c]\<rparr>"

subsection \<open>The methods\<close>

definition withLogLevel :: "string \<Rightarrow> ref \<Rightarrow> ('n, 'j) world \<Rightarrow> ref \<times> ('n, 'j) world" where
  "withLogLevel logLevel this w =
     (this, w\<lparr>heap := (heap w)(this := (heap w this)\<lparr>priv_logLevel := logLevel\<rparr>)\<rparr>)"

definition withTrackingId :: "string \<Rightarrow> ref \<Rightarrow> ('n, 'j) world \<Rightarrow> ref \<times> ('n, 'j) world" where
  "withTrackingId trackingId this w =
     (this, w\<lparr>heap := (heap w)(this := (heap w this)\<lparr>priv_trackingId := Some trackingId\<rparr>)\<rparr>)"

definition start :: "ref \<Rightarrow> ('n, 'j) world \<Rightarrow> ('n, 'j) world" where
  "start this w =
     (if Platform_OS w = ''ios'' then w
      else native (Init (priv_trackingId (heap w this)) (priv_logLevel (heap w this))) w)"

definition sendEvent :: "string \<Rightarrow> 'j \<Rightarrow> ref \<Rightarrow> ('n, 'j) world \<Rightarrow> ('n, 'j) world" where
  "sendEvent eventType eventBody this w =
     (if Platform_OS w = ''ios'' then w
      else native (SendEvent eventType eventBody) w)"

definition enable :: "bool \<Rightarrow> ref \<Rightarrow> ('n, 'j) world \<Rightarrow> ('n, 'j) world" where
  "enable v this w =
     (if Platform_OS w = ''ios'' then w
      else native (EnableTracker v) w)"

definition getTrackingId ::
  "ref \<Rightarrow> ('n, 'j) world \<Rightarrow> (string, 'j reason) promise \<times> ('n, 'j) world" where
  "getTrackingId this w =
     (if Platform_OS w = ''ios'' then (Promise_reject, w)
      else (reply_getTrackingId (NativeModules_QubitSDK w), native GetTrackingId w))"

definition getDeviceId ::
  "ref \<Rightarrow> ('n, 'j) world \<Rightarrow> (string, 'j reason) promise \<times> ('n, 'j) world" where
  "getDeviceId this w =
     (if Platform_OS w = ''ios'' then (Promise_reject, w)
      else (reply_getDeviceId (NativeModules_QubitSDK w), native GetDeviceId w))"

definition getLookupData ::
  "ref \<Rightarrow> ('n, 'j) world \<Rightarrow> ('j, 'j reason) promise \<times> ('n, 'j) world" where
  "getLookupData this w =
     (if Platform_OS w = ''ios'' then (Promise_reject, w)
      else (reply_getLookupData (NativeModules_QubitSDK w), native GetLookupData w))"

text \<open>
  A property of a decorated experience is either a property copied from the native record or
  the arrow function \<open>() => { NativeModules.QubitSDK.experienceShown(e) }\<close>, which is
  determined by the record \<open>e\<close> it closes over.
\<close>

datatype 'j member = Data 'j | ShownFn "'j obj"

type_synonym 'j experience = "string \<rightharpoonup> 'j member"

text \<open>The object literal \<open>{...e, shown: f}\<close>: the properties of \<open>e\<close>, then \<open>shown\<close>.\<close>

definition spread_shown :: "'j obj \<Rightarrow> 'j experience" where
  "spread_shown e = (map_option Data \<circ> e)(''shown'' \<mapsto> ShownFn e)"

text \<open>
  The executor of \<open>new Promise\<close> runs during the call: line 189 rejects on iOS and does not
  return, line 190 reads \<open>NativeModules.QubitSDK\<close> and issues the native call. Where the
  module is \<open>undefined\<close> the read of its \<open>getExperiences\<close> property throws, no call is
  issued, and \<open>new Promise\<close> hands the error to \<open>reject\<close>. The handlers of \<open>.then\<close>
  and \<open>.catch\<close> run when the native promise settles, and never before the call has returned.
\<close>

definition getExperiences ::
  "'n list \<Rightarrow> bool \<Rightarrow> 'n \<Rightarrow> bool \<Rightarrow> bool \<Rightarrow> bool \<Rightarrow> bool \<Rightarrow> ref \<Rightarrow> ('n, 'j) world
     \<Rightarrow> ('j experience list, 'j reason) promise \<times> ('n, 'j) world" where
  "getExperiences experienceIds isconstiationSet constiation isPreviewSet preview
       isIgnoreSegmentsSet ignoreSegments this w =
     (let p0 = Pending;
          p1 = (if Platform_OS w = ''ios'' then reject None p0 else p0)
      in case QubitSDK_module w of
           None \<Rightarrow>
             (let p2 = reject (Some (TypeError_value w)) p1
              in (\<lparr>at_return = p2, settled = p2\<rparr>, w))
         | Some m \<Rightarrow>
             (let np = reply_getExperiences m experienceIds isconstiationSet
                         constiation isPreviewSet preview isIgnoreSegmentsSet ignoreSegments;
                  w' = native (GetExperiences experienceIds isconstiationSet constiation
                         isPreviewSet preview isIgnoreSegmentsSet ignoreSegments) w;
                  p2 = (case settled np of
                          Fulfilled experiences \<Rightarrow> resolve (map spread_shown experiences) p1
                        | Rejected r \<Rightarrow> reject r p1
                        | Pending \<Rightarrow> p1)
              in (\<lparr>at_return = p1, settled = p2\<rparr>, w')))"

text \<open>
  A method call \<open>x.name()\<close> on a decorated experience, as in \<open>experiences.forEach(e => e.shown())\<close>
  of the documentation: calling a property that is missing or is not a function is a
  \<open>TypeError\<close>; calling the arrow function issues \<open>experienceShown\<close> with the record it
  closed over and returns nothing. A decorated experience only ever comes out of a reply of
  the native module, so the module object is there wherever one is called.
\<close>

datatype error = TypeError

definition call_method ::
  "'j experience \<Rightarrow> string \<Rightarrow> ('n, 'j) world \<Rightarrow> error + ('n, 'j) world" where
  "call_method x name w =
     (case x name of
        Some (ShownFn e) \<Rightarrow> Inr (native (ExperienceShown e) w)
      | Some (Data v) \<Rightarrow> Inl TypeError
      | None \<Rightarrow> Inl TypeError)"

subsection \<open>Worlds used as concrete inputs\<close>

definition quiet_native :: "(int, string) NativeQubitSDK" where
  "quiet_native =
     \<lparr>reply_getTrackingId = \<lparr>at_return = Pending, settled = Fulfilled ''abc''\<rparr>,
      reply_getDeviceId = \<lparr>at_return = Pending, settled = Fulfilled ''dev''\<rparr>,
      reply_getLookupData = \<lparr>at_return = Pending, settled = Fulfilled ''{}''\<rparr>,
      reply_getExperiences = (\<lambda>ids a v b p c s.
         \<lparr>at_return = Pending,
          settled = Fulfilled [[''id'' \<mapsto> ''1'', ''callback'' \<mapsto> ''url'']]\<rparr>)\<rparr>"

definition failing_native :: "(int, string) NativeQubitSDK" where
  "failing_native =
     \<lparr>reply_getTrackingId = \<lparr>at_return = Pending, settled = Rejected (Some ''E1'')\<rparr>,
      reply_getDeviceId = \<lparr>at_return = Pending, settled = Rejected (Some ''E2'')\<rparr>,
      reply_getLookupData = \<lparr>at_return = Pending, settled = Rejected (Some ''E3'')\<rparr>,
      reply_getExperiences = (\<lambda>ids a v b p c s.
         \<lparr>at_return = Pending, settled = Rejected (Some ''E4'')\<rparr>)\<rparr>"

definition world_on :: "string \<Rightarrow> (int, string) NativeQubitSDK \<Rightarrow> (int, string) world" where
  "world_on os n =
     \<lparr>Platform_OS = os, heap = (\<lambda>r. new_QubitSDK), NativeModules_QubitSDK = n, native_log = [],
      ios_module_registered = False, TypeError_value = ''TypeError''\<rparr>"

definition registered_ios_world :: "(int, string) NativeQubitSDK \<Rightarrow> (int, string) world" where
  "registered_ios_world n = (world_on ''ios'' n)\<lparr>ios_module_registered := True\<rparr>"

section \<open>Properties\<close>

lemma native_log_native: "native_log (native c w) = native_log w @ [c]"
  by (simp add: native_def)

text \<open>
  C7: on iOS, \<open>start\<close>, \<open>sendEvent\<close> and \<open>enable\<close> return without any native call and
  without any other effect: the world after the call is the world before it.
\<close>

theorem ios_sync_methods_no_native_call:
  assumes "Platform_OS w = ''ios''"
  shows "start this w = w
       \<and> sendEvent eventType eventBody this w = w
       \<and> enable v this w = w"
  using assms by (simp add: start_def sendEvent_def enable_def)

theorem ios_sync_methods_no_native_call_witness:
  "Platform_OS (world_on ''ios'' quiet_native) = ''ios''
   \<and> native_log (start 0 (world_on ''ios'' quiet_native)) = []
   \<and> native_log (sendEvent ''ecView'' ''{type: home}'' 0 (world_on ''ios'' quiet_native)) = []
   \<and> native_log (enable True 0 (world_on ''ios'' quiet_native)) = []"
proof -
  have os: "Platform_OS (world_on ''ios'' quiet_native) = ''ios''"
    by (simp add: world_on_def)
  show ?thesis
    using os ios_sync_methods_no_native_call [OF os]
    by (simp add: world_on_def)
qed


text \<open>
  C1, with the presence of the native module made explicit: on iOS, line 189 of \<open>getExperiences\<close> rejects but does not return, so
  line 190 is still evaluated during the call, before any handler can run. Where the native
  module is registered on iOS, the native \<open>getExperiences\<close> call is issued with the
  arguments as given; where it is not, the attempt throws inside the executor, the promise is
  already rejected, and the world is left as it was, with no native call. In both cases
  \<open>getTrackingId\<close>, \<open>getDeviceId\<close> and \<open>getLookupData\<close> return early and issue no
  native call.
\<close>

theorem getExperiences_ios_continues_past_reject:
  assumes "Platform_OS w = ''ios''"
  shows "(ios_module_registered w \<longrightarrow>
            native_log (snd (getExperiences ids a v b p c s this w))
              = native_log w @ [GetExperiences ids a v b p c s])
       \<and> (\<not> ios_module_registered w \<longrightarrow>
            snd (getExperiences ids a v b p c s this w) = w)
       \<and> native_log (snd (getTrackingId this w)) = native_log w
       \<and> native_log (snd (getDeviceId this w)) = native_log w
       \<and> native_log (snd (getLookupData this w)) = native_log w"
  using assms
  by (simp add: getExperiences_def QubitSDK_module_def getTrackingId_def getDeviceId_def
      getLookupData_def Let_def native_log_native)

theorem getExperiences_ios_continues_past_reject_witness:
  "Platform_OS (world_on ''ios'' quiet_native) = ''ios''
   \<and> \<not> ios_module_registered (world_on ''ios'' quiet_native)
   \<and> native_log (snd (getExperiences [] False 0 False False False False 0
         (world_on ''ios'' quiet_native))) = []
   \<and> native_log (snd (getTrackingId 0 (world_on ''ios'' quiet_native))) = []
   \<and> Platform_OS (registered_ios_world quiet_native) = ''ios''
   \<and> ios_module_registered (registered_ios_world quiet_native)
   \<and> native_log (snd (getExperiences [] False 0 False False False False 0
         (registered_ios_world quiet_native)))
       = [GetExperiences [] False 0 False False False False]
   \<and> native_log (snd (getTrackingId 0 (registered_ios_world quiet_native))) = []"
proof -
  let ?u = "world_on ''ios'' quiet_native"
  let ?r = "registered_ios_world quiet_native"
  have u: "Platform_OS ?u = ''ios''" "\<not> ios_module_registered ?u" "native_log ?u = []"
    by (simp_all add: world_on_def)
  have r: "Platform_OS ?r = ''ios''" "ios_module_registered ?r" "native_log ?r = []"
    by (simp_all add: registered_ios_world_def world_on_def)
  note absent = getExperiences_ios_continues_past_reject
    [OF u(1), of "[]" False 0 False False False False 0]
  note present = getExperiences_ios_continues_past_reject
    [OF r(1), of "[]" False 0 False False False False 0]
  from absent u have a1: "native_log (snd (getExperiences [] False 0 False False False False 0
      ?u)) = []"
    and a2: "native_log (snd (getTrackingId 0 ?u)) = []"
    by simp_all
  from present r have p1: "native_log (snd (getExperiences [] False 0 False False False False 0
      ?r)) = [GetExperiences [] False 0 False False False False]"
    and p2: "native_log (snd (getTrackingId 0 ?r)) = []"
    by simp_all
  from u(1,2) a1 a2 r(1,2) p1 p2 show ?thesis
    by simp
qed

text \<open>
  C1 read without that distinction, that the native call is issued on iOS regardless, fails
  on an iOS without the native module: \<open>getExperiences([], false, 0, false, false, false, false)\<close>
  leaves the native log empty there.
\<close>

theorem getExperiences_ios_no_module_no_call:
  "Platform_OS (world_on ''ios'' quiet_native) = ''ios''
   \<and> native_log (world_on ''ios'' quiet_native) = []
   \<and> native_log (snd (getExperiences [] False 0 False False False False 0
         (world_on ''ios'' quiet_native))) = []
   \<and> native_log (snd (getExperiences [] False 0 False False False False 0
         (world_on ''ios'' quiet_native)))
       \<noteq> native_log (world_on ''ios'' quiet_native)
           @ [GetExperiences [] False 0 False False False False]"
  by (simp add: getExperiences_def QubitSDK_module_def Let_def world_on_def)

text \<open>
  C2: on iOS, for every argument tuple and whatever the native side replies, the promise
  returned by \<open>getExperiences\<close> is already rejected, with no reason, when the call returns,
  and it stays so: it is never fulfilled.
\<close>

theorem getExperiences_ios_rejected:
  assumes "Platform_OS w = ''ios''"
  shows "at_return (fst (getExperiences ids a v b p c s this w)) = Rejected None
       \<and> settled (fst (getExperiences ids a v b p c s this w)) = Rejected None"
  using assms
  by (simp add: getExperiences_def QubitSDK_module_def Let_def reject_def resolve_def split: pstate.splits)

theorem getExperiences_ios_rejected_witness:
  "Platform_OS (world_on ''ios'' quiet_native) = ''ios''
   \<and> at_return (fst (getExperiences [] False 0 False False False False 0
         (world_on ''ios'' quiet_native))) = Rejected None
   \<and> settled (fst (getExperiences [] False 0 False False False False 0
         (world_on ''ios'' quiet_native))) = Rejected None"
proof -
  have os: "Platform_OS (world_on ''ios'' quiet_native) = ''ios''"
    by (simp add: world_on_def)
  show ?thesis
    using os getExperiences_ios_rejected [OF os, of "[]" False 0 False False False False 0]
    by simp
qed

text \<open>
  C4: on a supported platform, \<open>getExperiences\<close> issues exactly one native call, the native
  \<open>getExperiences\<close>, with the seven arguments in the positions and with the values it was
  given.
\<close>

theorem getExperiences_forwards_arguments:
  assumes "Platform_OS w \<noteq> ''ios''"
  shows "native_log (snd (getExperiences ids a v b p c s this w))
           = native_log w @ [GetExperiences ids a v b p c s]"
  using assms by (simp add: getExperiences_def QubitSDK_module_def Let_def native_log_native)

theorem getExperiences_forwards_arguments_witness:
  "Platform_OS (world_on ''android'' quiet_native) \<noteq> ''ios''
   \<and> native_log (snd (getExperiences [1, 2] True 5 False False True True 0
         (world_on ''android'' quiet_native)))
       = [GetExperiences [1, 2] True 5 False False True True]"
proof -
  have os: "Platform_OS (world_on ''android'' quiet_native) \<noteq> ''ios''"
    by (simp add: world_on_def)
  show ?thesis
    using os getExperiences_forwards_arguments [OF os, of "[1, 2]" True 5 False False True True 0]
    by (simp add: world_on_def)
qed



text \<open>
  C3: on a supported platform, when the native \<open>getExperiences\<close> call resolves with a
  sequence of records, \<open>getExperiences\<close> resolves with a sequence of the same length whose
  element at each position has every property of the native record at that position (other
  than \<open>shown\<close> itself, which is set last) and a \<open>shown\<close> method; calling that method
  issues the native \<open>experienceShown\<close> with the native record itself and hands nothing
  back but the world with that call logged.
\<close>

theorem getExperiences_decorates_each_record:
  assumes "Platform_OS w \<noteq> ''ios''"
    and "settled (reply_getExperiences (NativeModules_QubitSDK w) ids a v b p c s)
           = Fulfilled exps"
  shows "\<exists>ds. settled (fst (getExperiences ids a v b p c s this w)) = Fulfilled ds
       \<and> length ds = length exps
       \<and> (\<forall>i < length exps.
            (\<forall>k. k \<noteq> ''shown'' \<longrightarrow> (ds ! i) k = map_option Data ((exps ! i) k))
            \<and> (\<forall>u :: ('n, 'j) world.
                 call_method (ds ! i) ''shown'' u = Inr (native (ExperienceShown (exps ! i)) u)))"
  using assms
  by (simp add: getExperiences_def QubitSDK_module_def Let_def resolve_def spread_shown_def call_method_def)

theorem getExperiences_decorates_each_record_witness:
  "Platform_OS (world_on ''android'' quiet_native) \<noteq> ''ios''
   \<and> settled (reply_getExperiences (NativeModules_QubitSDK (world_on ''android'' quiet_native))
        [] False 0 False False False False)
       = Fulfilled [[''id'' \<mapsto> ''1'', ''callback'' \<mapsto> ''url'']]
   \<and> (\<exists>ds. settled (fst (getExperiences [] False 0 False False False False 0
                (world_on ''android'' quiet_native))) = Fulfilled ds
        \<and> length ds = 1
        \<and> (ds ! 0) ''id'' = Some (Data ''1'')
        \<and> (ds ! 0) ''callback'' = Some (Data ''url'')
        \<and> map_sum id native_log
             (call_method (ds ! 0) ''shown'' (world_on ''android'' quiet_native))
            = Inr [ExperienceShown [''id'' \<mapsto> ''1'', ''callback'' \<mapsto> ''url'']])"
proof -
  let ?w = "world_on ''android'' quiet_native"
  let ?e = "[''id'' \<mapsto> ''1'', ''callback'' \<mapsto> ''url''] :: string obj"
  have os: "Platform_OS ?w \<noteq> ''ios''"
    by (simp add: world_on_def)
  have reply: "settled (reply_getExperiences (NativeModules_QubitSDK ?w)
                 [] False 0 False False False False) = Fulfilled [?e]"
    by (simp add: world_on_def quiet_native_def)
  from getExperiences_decorates_each_record [OF os reply, of 0]
  obtain ds where ds: "settled (fst (getExperiences [] False 0 False False False False 0 ?w))
        = Fulfilled ds"
    and len: "length ds = length [?e]"
    and each: "\<forall>i < length [?e].
            (\<forall>k. k \<noteq> ''shown'' \<longrightarrow> (ds ! i) k = map_option Data (([?e] ! i) k))
            \<and> (\<forall>u :: (int, string) world.
                 call_method (ds ! i) ''shown'' u = Inr (native (ExperienceShown ([?e] ! i)) u))"
    by blast
  from each have props: "\<forall>k. k \<noteq> ''shown'' \<longrightarrow> (ds ! 0) k = map_option Data (?e k)"
    and call: "call_method (ds ! 0) ''shown'' ?w = Inr (native (ExperienceShown ?e) ?w)"
    by simp_all
  from props have "(ds ! 0) ''id'' = Some (Data ''1'')"
    and "(ds ! 0) ''callback'' = Some (Data ''url'')"
    by simp_all
  moreover from call have "map_sum id native_log (call_method (ds ! 0) ''shown'' ?w)
      = Inr [ExperienceShown ?e]"
    by (simp add: native_log_native world_on_def)
  ultimately show ?thesis
    using os reply ds len by auto
qed

text \<open>
  C5: on a supported platform, for each of the six log levels, \<open>withLogLevel\<close> with that
  level followed by \<open>start\<close> issues the native \<open>init\<close> with exactly that level as its
  second argument.
\<close>

theorem withLogLevel_start_forwards_level:
  assumes "Platform_OS w \<noteq> ''ios''"
    and "logLevel \<in> set logLevels"
  shows "native_log (case withLogLevel logLevel this w of (self, w') \<Rightarrow> start self w')
           = native_log w @ [Init (priv_trackingId (heap w this)) logLevel]"
  using assms by (simp add: withLogLevel_def start_def native_log_native)

theorem withLogLevel_start_forwards_level_witness:
  "Platform_OS (world_on ''android'' quiet_native) \<noteq> ''ios''
   \<and> ''SILENT'' \<in> set logLevels
   \<and> native_log (case withLogLevel ''SILENT'' 0 (world_on ''android'' quiet_native) of
                    (self, w') \<Rightarrow> start self w') = [Init None ''SILENT'']
   \<and> ''ERROR'' \<in> set logLevels
   \<and> native_log (case withLogLevel ''ERROR'' 0 (world_on ''android'' quiet_native) of
                    (self, w') \<Rightarrow> start self w') = [Init None ''ERROR'']
   \<and> ''WARN'' \<in> set logLevels
   \<and> native_log (case withLogLevel ''WARN'' 0 (world_on ''android'' quiet_native) of
                    (self, w') \<Rightarrow> start self w') = [Init None ''WARN'']
   \<and> ''INFO'' \<in> set logLevels
   \<and> native_log (case withLogLevel ''INFO'' 0 (world_on ''android'' quiet_native) of
                    (self, w') \<Rightarrow> start self w') = [Init None ''INFO'']
   \<and> ''DEBUG'' \<in> set logLevels
   \<and> native_log (case withLogLevel ''DEBUG'' 0 (world_on ''android'' quiet_native) of
                    (self, w') \<Rightarrow> start self w') = [Init None ''DEBUG'']
   \<and> ''VERBOSE'' \<in> set logLevels
   \<and> native_log (case withLogLevel ''VERBOSE'' 0 (world_on ''android'' quiet_native) of
                    (self, w') \<Rightarrow> start self w') = [Init None ''VERBOSE'']"
proof -
  have os: "Platform_OS (world_on ''android'' quiet_native) \<noteq> ''ios''"
    by (simp add: world_on_def)
  have m0: "''SILENT'' \<in> set logLevels"
    by (simp add: logLevels_def)
  have m1: "''ERROR'' \<in> set logLevels"
    by (simp add: logLevels_def)
  have m2: "''WARN'' \<in> set logLevels"
    by (simp add: logLevels_def)
  have m3: "''INFO'' \<in> set logLevels"
    by (simp add: logLevels_def)
  have m4: "''DEBUG'' \<in> set logLevels"
    by (simp add: logLevels_def)
  have m5: "''VERBOSE'' \<in> set logLevels"
    by (simp add: logLevels_def)
  have h: "priv_trackingId (heap (world_on ''android'' quiet_native) 0) = None"
    "native_log (world_on ''android'' quiet_native) = []"
    by (simp_all add: world_on_def new_QubitSDK_def)
  show ?thesis
    using os m0 m1 m2 m3 m4 m5
      withLogLevel_start_forwards_level [OF os m0, of 0]
      withLogLevel_start_forwards_level [OF os m1, of 0]
      withLogLevel_start_forwards_level [OF os m2, of 0]
      withLogLevel_start_forwards_level [OF os m3, of 0]
      withLogLevel_start_forwards_level [OF os m4, of 0]
      withLogLevel_start_forwards_level [OF os m5, of 0]
    unfolding h by simp
qed





text \<open>
  C8: on iOS, \<open>getTrackingId\<close>, \<open>getDeviceId\<close> and \<open>getLookupData\<close> each return a promise
  that is rejected when the call returns and stays rejected, whose reason is \<open>undefined\<close>
  (no error detail), and leave the world, hence the native log, unchanged.
\<close>

theorem ios_accessors_rejected:
  assumes "Platform_OS w = ''ios''"
  shows "at_return (fst (getTrackingId this w)) = Rejected None
       \<and> settled (fst (getTrackingId this w)) = Rejected None
       \<and> snd (getTrackingId this w) = w
       \<and> at_return (fst (getDeviceId this w)) = Rejected None
       \<and> settled (fst (getDeviceId this w)) = Rejected None
       \<and> snd (getDeviceId this w) = w
       \<and> at_return (fst (getLookupData this w)) = Rejected None
       \<and> settled (fst (getLookupData this w)) = Rejected None
       \<and> snd (getLookupData this w) = w"
  using assms
  by (simp add: getTrackingId_def getDeviceId_def getLookupData_def Promise_reject_def)

theorem ios_accessors_rejected_witness:
  "Platform_OS (world_on ''ios'' quiet_native) = ''ios''
   \<and> settled (fst (getTrackingId 0 (world_on ''ios'' quiet_native))) = Rejected None
   \<and> settled (fst (getDeviceId 0 (world_on ''ios'' quiet_native))) = Rejected None
   \<and> settled (fst (getLookupData 0 (world_on ''ios'' quiet_native))) = Rejected None
   \<and> native_log (snd (getTrackingId 0 (world_on ''ios'' quiet_native))) = []
   \<and> native_log (snd (getDeviceId 0 (world_on ''ios'' quiet_native))) = []
   \<and> native_log (snd (getLookupData 0 (world_on ''ios'' quiet_native))) = []"
proof -
  have os: "Platform_OS (world_on ''ios'' quiet_native) = ''ios''"
    by (simp add: world_on_def)
  have h: "native_log (world_on ''ios'' quiet_native) = []"
    by (simp add: world_on_def)
  show ?thesis
    using os ios_accessors_rejected [OF os, of 0] h by simp
qed

text \<open>
  C9: on a supported platform, when the native promise of an asynchronous call rejects with
  a reason, the promise the facade returned rejects with that same reason. For
  \<open>getExperiences\<close> the reason is handed to \<open>reject\<close> as it is and the native call was
  issued once; the three other accessors return the native promise itself.
\<close>

theorem native_failure_propagates:
  assumes "Platform_OS w \<noteq> ''ios''"
  shows "(settled (reply_getExperiences (NativeModules_QubitSDK w) ids a v b p c s) = Rejected r
            \<longrightarrow> settled (fst (getExperiences ids a v b p c s this w)) = Rejected r
              \<and> native_log (snd (getExperiences ids a v b p c s this w))
                  = native_log w @ [GetExperiences ids a v b p c s])
       \<and> (settled (reply_getTrackingId (NativeModules_QubitSDK w)) = Rejected r1
            \<longrightarrow> settled (fst (getTrackingId this w)) = Rejected r1
              \<and> native_log (snd (getTrackingId this w)) = native_log w @ [GetTrackingId])
       \<and> (settled (reply_getDeviceId (NativeModules_QubitSDK w)) = Rejected r2
            \<longrightarrow> settled (fst (getDeviceId this w)) = Rejected r2
              \<and> native_log (snd (getDeviceId this w)) = native_log w @ [GetDeviceId])
       \<and> (settled (reply_getLookupData (NativeModules_QubitSDK w)) = Rejected r3
            \<longrightarrow> settled (fst (getLookupData this w)) = Rejected r3
              \<and> native_log (snd (getLookupData this w)) = native_log w @ [GetLookupData])"
  using assms
  by (simp add: getExperiences_def QubitSDK_module_def getTrackingId_def getDeviceId_def
      getLookupData_def Let_def reject_def native_log_native)

theorem native_failure_propagates_witness:
  "Platform_OS (world_on ''android'' failing_native) \<noteq> ''ios''
   \<and> settled (reply_getExperiences (NativeModules_QubitSDK (world_on ''android'' failing_native))
        [1, 2] True 5 False False True True) = Rejected (Some ''E4'')
   \<and> settled (fst (getExperiences [1, 2] True 5 False False True True 0
        (world_on ''android'' failing_native))) = Rejected (Some ''E4'')
   \<and> settled (reply_getTrackingId (NativeModules_QubitSDK (world_on ''android'' failing_native)))
       = Rejected (Some ''E1'')
   \<and> settled (fst (getTrackingId 0 (world_on ''android'' failing_native))) = Rejected (Some ''E1'')
   \<and> settled (reply_getDeviceId (NativeModules_QubitSDK (world_on ''android'' failing_native)))
       = Rejected (Some ''E2'')
   \<and> settled (fst (getDeviceId 0 (world_on ''android'' failing_native))) = Rejected (Some ''E2'')
   \<and> settled (reply_getLookupData (NativeModules_QubitSDK (world_on ''android'' failing_native)))
       = Rejected (Some ''E3'')
   \<and> settled (fst (getLookupData 0 (world_on ''android'' failing_native))) = Rejected (Some ''E3'')"
proof -
  let ?w = "world_on ''android'' failing_native"
  have os: "Platform_OS ?w \<noteq> ''ios''"
    by (simp add: world_on_def)
  have r: "settled (reply_getExperiences (NativeModules_QubitSDK ?w)
             [1, 2] True 5 False False True True) = Rejected (Some ''E4'')"
    "settled (reply_getTrackingId (NativeModules_QubitSDK ?w)) = Rejected (Some ''E1'')"
    "settled (reply_getDeviceId (NativeModules_QubitSDK ?w)) = Rejected (Some ''E2'')"
    "settled (reply_getLookupData (NativeModules_QubitSDK ?w)) = Rejected (Some ''E3'')"
    by (simp_all add: world_on_def failing_native_def)
  show ?thesis
    using os r native_failure_propagates [OF os, of "[1, 2]" True 5 False False True True
        "Some ''E4''" 0 "Some ''E1''" "Some ''E2''" "Some ''E3''"]
    by simp
qed

text \<open>
  C10: on a supported platform, \<open>start\<close> on a facade as constructed (no \<open>withTrackingId\<close>,
  no \<open>withLogLevel\<close> before) issues \<open>init(null, 'WARN')\<close>; and whatever string was given to
  \<open>withTrackingId\<close>, the empty one included, \<open>start\<close> passes it to \<open>init\<close> as it is.
\<close>

theorem start_forwards_tracking_id_unvalidated:
  assumes "Platform_OS w \<noteq> ''ios''"
  shows "(heap w this = new_QubitSDK \<longrightarrow>
            native_log (start this w) = native_log w @ [Init None ''WARN''])
       \<and> native_log (case withTrackingId t this w of (self, w') \<Rightarrow> start self w')
           = native_log w @ [Init (Some t) (priv_logLevel (heap w this))]"
  using assms
  by (simp add: withTrackingId_def start_def new_QubitSDK_def native_log_native)

theorem start_forwards_tracking_id_unvalidated_witness:
  "Platform_OS (world_on ''android'' quiet_native) \<noteq> ''ios''
   \<and> heap (world_on ''android'' quiet_native) 0 = new_QubitSDK
   \<and> native_log (start 0 (world_on ''android'' quiet_native)) = [Init None ''WARN'']
   \<and> native_log (case withTrackingId [] 0 (world_on ''android'' quiet_native) of
                    (self, w') \<Rightarrow> start self w') = [Init (Some []) ''WARN'']"
proof -
  let ?w = "world_on ''android'' quiet_native"
  have os: "Platform_OS ?w \<noteq> ''ios''"
    by (simp add: world_on_def)
  have h: "heap ?w 0 = new_QubitSDK" "native_log ?w = []"
    "priv_logLevel (heap ?w 0) = ''WARN''"
    by (simp_all add: world_on_def new_QubitSDK_def)
  show ?thesis
    using os h(1) start_forwards_tracking_id_unvalidated [OF os, of 0 "[]"]
    unfolding h(2,3) by simp
qed


end
